theory Spec2Isabelle
  imports Complex_Main "HOL-Library.Word"
begin

section \<open>Python strings and values\<close>

text \<open>
  A Python \<open>str\<close> is modelled as an Isabelle \<open>string\<close>: a list of characters, each
  standing for the code point of the same number (0 to 255). Strings with code points
  above 255 are outside the model. The character classes below are those of Python on
  this range: \<open>str.isspace\<close> (also what \<open>str.strip()\<close> removes and what \<open>\s\<close> matches)
  and \<open>str.isdigit\<close>, which accepts the superscript digits U+00B2, U+00B3 and U+00B9
  besides \<open>0\<close> to \<open>9\<close>.
\<close>

definition whitespace_chars :: "char list" where
  "whitespace_chars =
     [CHR 0x09, CHR 0x0A, CHR 0x0B, CHR 0x0C, CHR 0x0D, CHR 0x1C, CHR 0x1D, CHR 0x1E,
      CHR 0x1F, CHR 0x20, CHR 0x85, CHR 0xA0]"

definition isspace :: "char \<Rightarrow> bool" where
  "isspace c = (c \<in> set whitespace_chars)"

definition digit_chars :: "char list" where
  "digit_chars = ''0123456789'' @ [CHR 0xB2, CHR 0xB3, CHR 0xB9]"

definition isdigit_char :: "char \<Rightarrow> bool" where
  "isdigit_char c = (c \<in> set digit_chars)"

definition isdigit :: "string \<Rightarrow> bool" where
  \<comment> \<open>\<open>s.isdigit()\<close>: at least one character, and every character a digit\<close>
  "isdigit s = (s \<noteq> [] \<and> list_all isdigit_char s)"

definition lstrip_chars :: "char list \<Rightarrow> string \<Rightarrow> string" where
  "lstrip_chars cs s = dropWhile (\<lambda>c. c \<in> set cs) s"

definition rstrip_chars :: "char list \<Rightarrow> string \<Rightarrow> string" where
  "rstrip_chars cs s = rev (dropWhile (\<lambda>c. c \<in> set cs) (rev s))"

definition strip_chars :: "char list \<Rightarrow> string \<Rightarrow> string" where
  \<comment> \<open>\<open>s.strip(cs)\<close>: drops leading and trailing characters that occur in \<open>cs\<close>\<close>
  "strip_chars cs s = rstrip_chars cs (lstrip_chars cs s)"

definition strip :: "string \<Rightarrow> string" where
  \<comment> \<open>\<open>s.strip()\<close>\<close>
  "strip s = strip_chars whitespace_chars s"

definition startswith :: "string \<Rightarrow> string \<Rightarrow> bool" where
  \<comment> \<open>\<open>s.startswith(p)\<close>\<close>
  "startswith s p = (take (length p) s = p)"

fun find_sub :: "string \<Rightarrow> string \<Rightarrow> nat option" where
  \<comment> \<open>\<open>s.find(sub)\<close>: the index of the first occurrence, \<open>None\<close> for Python's -1\<close>
  "find_sub sub [] = (if sub = [] then Some 0 else None)"
| "find_sub sub (c # cs) =
     (if startswith (c # cs) sub then Some 0 else map_option Suc (find_sub sub cs))"

definition contains :: "string \<Rightarrow> string \<Rightarrow> bool" where
  \<comment> \<open>\<open>sub in s\<close>\<close>
  "contains sub s = (find_sub sub s \<noteq> None)"

fun split_from :: "string \<Rightarrow> string \<Rightarrow> string \<Rightarrow> string list" where
  \<comment> \<open>scans left to right; \<open>cur\<close> is the piece collected since the last separator\<close>
  "split_from sep cur [] = [cur]"
| "split_from sep cur (c # cs) =
     (if sep \<noteq> [] \<and> startswith (c # cs) sep
      then cur # split_from sep [] (drop (length sep - 1) cs)
      else split_from sep (cur @ [c]) cs)"

definition split :: "string \<Rightarrow> string \<Rightarrow> string list" where
  \<comment> \<open>\<open>s.split(sep)\<close> for a non-empty separator (every separator in the source
      is a non-empty literal; Python raises ValueError on an empty one)\<close>
  "split sep s = split_from sep [] s"

definition slice_to :: "'a list \<Rightarrow> int \<Rightarrow> 'a list" where
  \<comment> \<open>\<open>s[:k]\<close>: a negative \<open>k\<close> counts from the end\<close>
  "slice_to s k = (if k < 0 then take (nat (int (length s) + k)) s else take (nat k) s)"

text \<open>
  Values decoded from JSON (metadata values, the identifier returned by the
  collections service). A dict is the list of its items; \<open>map_of\<close> is \<open>dict.get\<close>.
  Numbers are the rational values of Python's ints and finite floats.
\<close>

datatype pyval =
    PNone
  | PBool bool
  | PNum rat
  | PStr string
  | PList "pyval list"
  | PDict "(string \<times> pyval) list"

fun truthy :: "pyval \<Rightarrow> bool" where
  "truthy PNone = False"
| "truthy (PBool b) = b"
| "truthy (PNum r) = (r \<noteq> 0)"
| "truthy (PStr s) = (s \<noteq> [])"
| "truthy (PList xs) = (xs \<noteq> [])"
| "truthy (PDict kvs) = (kvs \<noteq> [])"

datatype error = TypeError | AttributeError | ImportError | ValueError


section \<open>Module-level helpers (shared by \<open>r2rpipe.py\<close> and \<open>r2rtool.py\<close>)\<close>

definition truncate :: "string \<Rightarrow> int \<Rightarrow> string" where
  \<comment> \<open>\<open>_truncate\<close>; \<open>s or ""\<close> leaves a \<open>str\<close> as it is\<close>
  "truncate s n = (if int (length s) \<le> n then s else slice_to s (n - 3) @ ''...'')"

fun first_identifier :: "string list \<Rightarrow> (string \<times> pyval) list \<Rightarrow> string option" where
  \<comment> \<open>one \<open>for key in (...)\<close> loop of \<open>_get_citation_identifier\<close>: \<open>Some\<close> is its \<open>return\<close>\<close>
  "first_identifier [] meta = None"
| "first_identifier (key # keys) meta =
     (case map_of meta key of
        Some (PStr v) \<Rightarrow>
          (if strip v \<noteq> [] then Some (strip v) else first_identifier keys meta)
      | _ \<Rightarrow> first_identifier keys meta)"

definition get_citation_identifier :: "pyval \<Rightarrow> string" where
  "get_citation_identifier meta =
     (case meta of
        PDict d \<Rightarrow>
          (case first_identifier [''title'', ''source'', ''filename''] d of
             Some v \<Rightarrow> v
           | None \<Rightarrow>
               (case first_identifier [''file_name'', ''name'', ''document_id''] d of
                  Some v \<Rightarrow> v
                | None \<Rightarrow> ''Unknown''))
      | _ \<Rightarrow> ''Unknown'')"

definition citation_keys :: "string list" where
  "citation_keys = [''title'', ''source'', ''filename'', ''file_name'', ''name'', ''document_id'']"

definition holds_text :: "(string \<times> pyval) list \<Rightarrow> string \<Rightarrow> bool" where
  \<comment> \<open>the key holds a string that is not empty once trimmed\<close>
  "holds_text meta key =
     (case map_of meta key of Some (PStr v) \<Rightarrow> strip v \<noteq> [] | _ \<Rightarrow> False)"

definition text_at :: "(string \<times> pyval) list \<Rightarrow> string \<Rightarrow> string" where
  "text_at meta key = (case map_of meta key of Some (PStr v) \<Rightarrow> strip v | _ \<Rightarrow> [])"

definition file_id_of_name :: "string \<Rightarrow> string option" where
  \<comment> \<open>the three filename patterns of \<open>_extract_nextcloud_file_id\<close>, on a non-empty \<open>str\<close>\<close>
  "file_id_of_name filename =
     (let file_id = strip (last (split ''files__default:'' filename)) in
      if contains ''files__default:'' filename \<and> isdigit file_id then Some file_id
      else if startswith filename ''files_'' \<and> isdigit (drop 6 filename)
        then Some (drop 6 filename)
      else if isdigit filename then Some filename
      else None)"

definition extract_nextcloud_file_id :: "pyval \<Rightarrow> error + string option" where
  \<comment> \<open>\<open>Inl\<close>: the exception a truthy filename that is not a \<open>str\<close> raises
      (\<open>in\<close> on a number or bool, \<open>startswith\<close> on a list or dict)\<close>
  "extract_nextcloud_file_id metadata =
     (case metadata of
        PDict d \<Rightarrow>
          (case map_of d ''filename'' of
             None \<Rightarrow> Inr None
           | Some (PStr filename) \<Rightarrow>
               (if filename = [] then Inr None else Inr (file_id_of_name filename))
           | Some v \<Rightarrow>
               (if \<not> truthy v then Inr None
                else (case v of
                        PList _ \<Rightarrow> Inl AttributeError
                      | PDict _ \<Rightarrow> Inl AttributeError
                      | _ \<Rightarrow> Inl TypeError)))
      | _ \<Rightarrow> Inr None)"

definition nextcloud_url :: "string \<Rightarrow> string \<Rightarrow> string" where
  \<comment> \<open>\<open>f"{nextcloud_base_url.rstrip('/')}/f/{suffix}"\<close>\<close>
  "nextcloud_url base suffix = rstrip_chars ''/'' base @ ''/f/'' @ suffix"

definition pipe_link :: "string \<Rightarrow> pyval \<Rightarrow> error + (string option \<times> string option)" where
  \<comment> \<open>file id and link of one chunk in \<open>Pipe._build_context_from_results\<close>\<close>
  "pipe_link base metadata =
     (case extract_nextcloud_file_id metadata of
        Inl e \<Rightarrow> Inl e
      | Inr None \<Rightarrow> Inr (None, None)
      | Inr (Some file_id) \<Rightarrow>
          (if file_id = [] then Inr (Some file_id, None)
           else Inr (Some file_id, Some (nextcloud_url base file_id))))"

definition tool_link ::
  "string \<Rightarrow> pyval \<Rightarrow> string \<Rightarrow> error + (string option \<times> string option)" where
  \<comment> \<open>file id and link of one chunk in \<open>Tools.r2r_search_context\<close>: the inline
      \<open>files__default:\<close> rule, then the fallback built from the citation identifier\<close>
  "tool_link base metadata citation_id =
     (case metadata of
        PDict d \<Rightarrow>
          (let primary =
             (case map_of d ''filename'' of
                None \<Rightarrow> Inr (None, None)
              | Some (PStr filename) \<Rightarrow>
                  (let file_id = strip (last (split ''files__default:'' filename)) in
                   if filename \<noteq> [] \<and> contains ''files__default:'' filename
                      \<and> isdigit file_id
                   then Inr (Some file_id, Some (nextcloud_url base file_id))
                   else Inr (None, None))
              | Some (PList _) \<Rightarrow> Inr (None, None)
              | Some (PDict _) \<Rightarrow> Inr (None, None)
              | Some v \<Rightarrow> (if truthy v then Inl TypeError else Inr (None, None)))
           in case primary of
                Inl e \<Rightarrow> Inl e
              | Inr (file_id, link) \<Rightarrow>
                  (if link = None \<and> citation_id \<noteq> []
                      \<and> (contains ''/'' citation_id \<or> contains ''.'' citation_id)
                      \<and> \<not> startswith citation_id ''http''
                   then Inr (file_id, Some (nextcloud_url base (lstrip_chars ''/'' citation_id)))
                   else Inr (file_id, link)))
      | _ \<Rightarrow> Inl AttributeError)"


section \<open>Directory GUIDs\<close>

text \<open>
  \<open>uuid.UUID\<close> of the standard library, as far as the lookup uses it: built from 16 bytes
  or from text, held as a number below \<open>2 ^ 128\<close>, printed as 32 lower-case hexadecimal
  digits in groups of 8, 4, 4, 4 and 12. Text is read as the library reads it: \<open>urn:\<close>,
  \<open>uuid:\<close>, surrounding braces and hyphens are dropped, 32 characters must remain, and
  \<open>int(hex, 16)\<close> converts them (it skips surrounding blanks and accepts a sign, a
  \<open>0x\<close> prefix and single underscores between digits).
\<close>

definition join :: "string \<Rightarrow> string list \<Rightarrow> string" where
  \<comment> \<open>\<open>sep.join(parts)\<close>\<close>
  "join sep parts = (case parts of [] \<Rightarrow> [] | p # ps \<Rightarrow> p @ concat (map (\<lambda>q. sep @ q) ps))"

definition replace :: "string \<Rightarrow> string \<Rightarrow> string \<Rightarrow> string" where
  \<comment> \<open>\<open>s.replace(old, new)\<close> for a non-empty \<open>old\<close>\<close>
  "replace old new s = join new (split old s)"

definition upper_char :: "char \<Rightarrow> char" where
  "upper_char c =
     (case map_of (zip ''abcdefghijklmnopqrstuvwxyz'' ''ABCDEFGHIJKLMNOPQRSTUVWXYZ'') c of
        Some u \<Rightarrow> u
      | None \<Rightarrow> c)"

definition upper :: "string \<Rightarrow> string" where
  \<comment> \<open>\<open>s.upper()\<close> on ASCII text; the source applies it to printed UUIDs only\<close>
  "upper s = map upper_char s"

definition hex_char :: "nat \<Rightarrow> char" where
  "hex_char d = ''0123456789abcdef'' ! d"

fun hex_pad :: "nat \<Rightarrow> nat \<Rightarrow> string" where
  \<comment> \<open>\<open>'%0kx' % n\<close> for \<open>n < 16 ^ k\<close>\<close>
  "hex_pad 0 n = []"
| "hex_pad (Suc k) n = hex_pad k (n div 16) @ [hex_char (n mod 16)]"

definition uuid_str :: "nat \<Rightarrow> string" where
  \<comment> \<open>\<open>str(uuid)\<close>\<close>
  "uuid_str u =
     (let h = hex_pad 32 u
      in take 8 h @ ''-'' @ take 4 (drop 8 h) @ ''-'' @ take 4 (drop 12 h) @ ''-''
         @ take 4 (drop 16 h) @ ''-'' @ drop 20 h)"

definition from_bytes :: "8 word list \<Rightarrow> nat" where
  \<comment> \<open>\<open>int.from_bytes(b, 'big')\<close>\<close>
  "from_bytes bs = foldl (\<lambda>acc b. acc * 256 + unat b) 0 bs"

definition uuid_from_bytes :: "8 word list \<Rightarrow> error + nat" where
  \<comment> \<open>\<open>uuid.UUID(bytes=b)\<close>\<close>
  "uuid_from_bytes bs = (if length bs \<noteq> 16 then Inl ValueError else Inr (from_bytes bs))"

definition int_space :: "char \<Rightarrow> bool" where
  \<comment> \<open>the blanks \<open>int()\<close> skips\<close>
  "int_space c =
     (c \<in> set [CHR 0x09, CHR 0x0A, CHR 0x0B, CHR 0x0C, CHR 0x0D, CHR 0x20, CHR 0x85, CHR 0xA0])"

definition hex_value :: "char \<Rightarrow> nat option" where
  "hex_value c =
     (case find_sub [c] ''0123456789abcdef'' of
        Some d \<Rightarrow> Some d
      | None \<Rightarrow> map_option (\<lambda>d. d + 10) (find_sub [c] ''ABCDEF''))"

fun scan_hex :: "nat \<Rightarrow> bool \<Rightarrow> string \<Rightarrow> (nat \<times> string) option" where
  \<comment> \<open>reads digits and single underscores; the flag says the previous character
      was an underscore; the result is the value and the unread rest\<close>
  "scan_hex acc prev_us [] = (if prev_us then None else Some (acc, []))"
| "scan_hex acc prev_us (c # cs) =
     (case hex_value c of
        Some d \<Rightarrow> scan_hex (acc * 16 + d) False cs
      | None \<Rightarrow>
          (if c = CHR ''_'' then (if prev_us then None else scan_hex acc True cs)
           else if prev_us then None
           else Some (acc, c # cs)))"

definition py_int16 :: "string \<Rightarrow> int option" where
  \<comment> \<open>\<open>int(s, 16)\<close>; \<open>None\<close> is its ValueError\<close>
  "py_int16 s =
     (let s1 = dropWhile int_space s;
          neg = startswith s1 ''-'';
          s2 = (if startswith s1 ''+'' \<or> neg then drop 1 s1 else s1);
          s3 = (if startswith s2 ''0x'' \<or> startswith s2 ''0X''
                then (if startswith (drop 2 s2) ''_'' then drop 3 s2 else drop 2 s2)
                else s2)
      in if startswith s3 ''_'' then None
         else (case scan_hex 0 False s3 of
                 None \<Rightarrow> None
               | Some (n, rest) \<Rightarrow>
                   (if length rest = length s3 then None
                    else if dropWhile int_space rest \<noteq> [] then None
                    else Some (if neg then - int n else int n))))"

definition uuid_from_hex :: "string \<Rightarrow> error + nat" where
  \<comment> \<open>\<open>uuid.UUID(s)\<close>\<close>
  "uuid_from_hex s =
     (let hex = replace ''uuid:'' [] (replace ''urn:'' [] s);
          hex = replace ''-'' [] (strip_chars ''{}'' hex)
      in if length hex \<noteq> 32 then Inl ValueError
         else (case py_int16 hex of
                 None \<Rightarrow> Inl ValueError
               | Some i \<Rightarrow>
                   (if 0 \<le> i \<and> i < 2 ^ 128 then Inr (nat i) else Inl ValueError)))"

text \<open>
  The value of the configured GUID attribute on a directory entry: raw bytes, text, a
  list, or anything else (\<open>GOther\<close>).
\<close>

datatype guid_value = GBytes "8 word list" | GStr string | GList "guid_value list" | GOther

definition guid_of_bytes :: "8 word list \<Rightarrow> string option" where
  \<comment> \<open>the ValueError of a wrong length is caught by the enclosing \<open>except Exception\<close>\<close>
  "guid_of_bytes bs =
     (case uuid_from_bytes bs of Inl e \<Rightarrow> None | Inr u \<Rightarrow> Some (upper (uuid_str u)))"

definition guid_of_text :: "string \<Rightarrow> string option" where
  "guid_of_text t =
     (case uuid_from_hex (strip (strip_chars ''{}'' t)) of
        Inl e \<Rightarrow> None
      | Inr u \<Rightarrow> Some (upper (uuid_str u)))"

fun pipe_guid_of_value :: "guid_value \<Rightarrow> string option" where
  \<comment> \<open>the \<open>isinstance\<close> chain of \<open>_ldap_lookup_user_guid\<close> in \<open>r2rpipe.py\<close>\<close>
  "pipe_guid_of_value (GBytes bs) = guid_of_bytes bs"
| "pipe_guid_of_value (GStr t) = guid_of_text t"
| "pipe_guid_of_value (GList []) = None"
| "pipe_guid_of_value (GList (GStr t # rest)) = guid_of_text t"
| "pipe_guid_of_value (GList (GBytes bs # rest)) = guid_of_bytes bs"
| "pipe_guid_of_value (GList (first_guid # rest)) = None"
| "pipe_guid_of_value GOther = None"

fun tool_guid_of_value :: "guid_value \<Rightarrow> string option" where
  \<comment> \<open>the same place in \<open>r2rtool.py\<close>: only \<open>bytes\<close> is handled\<close>
  "tool_guid_of_value (GBytes bs) = guid_of_bytes bs"
| "tool_guid_of_value v = None"


section \<open>Properties\<close>

lemma first_identifier_find:
  "first_identifier keys meta = map_option (text_at meta) (List.find (holds_text meta) keys)"
  by (induction keys) (auto simp: holds_text_def text_at_def split: option.splits pyval.splits)

text \<open>
  Claim C9. For a character budget \<open>n\<close> of at least 3 (every configured budget is: the
  per-chunk limit is between 100 and 5000, the sources panel uses 300), truncation
  returns the string unchanged when it has at most \<open>n\<close> characters, and otherwise its
  first \<open>n - 3\<close> characters followed by three dots, \<open>n\<close> characters in all.
  Truncating \<open>abcdefghij\<close> to 5 gives \<open>ab...\<close>.
\<close>

theorem truncate_spec:
  "3 \<le> n \<Longrightarrow>
     truncate s n = (if int (length s) \<le> n then s else take (nat (n - 3)) s @ ''...'')
     \<and> (if int (length s) \<le> n then truncate s n = s else int (length (truncate s n)) = n)
     \<and> truncate ''abcdefghij'' 5 = ''ab...''"
  by (auto simp: truncate_def slice_to_def)

theorem truncate_spec_witness:
  "(3::int) \<le> 5 \<and> truncate ''abcdefghij'' 5 = ''ab'' @ ''...''
   \<and> int (length (truncate ''abcdefghij'' 5)) = 5"
  using truncate_spec [of 5 "''abcdefghij''"] by simp

end
